theory Spec2Isabelle
  imports Main "HOL-Library.Sublist"
begin

section \<open>Error values\<close>

text \<open>
  Modelled from the spec: the package \<^verbatim>\<open>github.com/go-msvc/errors\<close> (\<^verbatim>\<open>Errorf\<close>,
  \<^verbatim>\<open>Errorc\<close>, \<^verbatim>\<open>Wrapf\<close>, the interface \<^verbatim>\<open>IError\<close> with its method \<^verbatim>\<open>Code\<close>), which
  \<^verbatim>\<open>server.go\<close> imports and which is not among the source files. The spec describes
  a structured error as a message with an optional status code, and wrapping as adding
  context while preserving the embedded status code of the wrapped error.

  A Go \<^verbatim>\<open>error\<close> is either a value of some other type that does not implement
  \<^verbatim>\<open>errors.IError\<close> (\<^verbatim>\<open>io.EOF\<close>, the errors of \<^verbatim>\<open>encoding/json\<close>, a handler's
  plain error), of which only the text of \<^verbatim>\<open>Error()\<close> is kept, or a value that
  implements \<^verbatim>\<open>errors.IError\<close>: its code (0 when none was given), its message and the
  error it wraps. The text of an error that wraps another is its own message followed by
  the text of the wrapped error; the spec fixes that the context message is kept, not how
  the two are joined, and the theorems below speak of the context message only.
\<close>

datatype error =
    StdError string
  | IError int string "error option"

fun Error_text :: "error \<Rightarrow> string" where
  "Error_text (StdError m) = m"
| "Error_text (IError c m None) = m"
| "Error_text (IError c m (Some parent)) = m @ '': '' @ Error_text parent"

text \<open>
  Modelled from the spec: \<^verbatim>\<open>fmt.Sprintf("%+v", err)\<close>; the detail the library may add
  under \<^verbatim>\<open>%+v\<close> (source positions) is not modelled, the text is that of \<^verbatim>\<open>Error()\<close>.
\<close>

definition fmt_plus_v :: "error \<Rightarrow> string" where
  "fmt_plus_v e = Error_text e"

text \<open>Modelled from the spec: \<^verbatim>\<open>errors.Errorf\<close>, an error with a message and no code.\<close>

definition errors_Errorf :: "string \<Rightarrow> error" where
  "errors_Errorf msg = IError 0 msg None"

text \<open>Modelled from the spec: \<^verbatim>\<open>errors.Errorc\<close>, an error with a status code and a message.\<close>

definition errors_Errorc :: "int \<Rightarrow> string \<Rightarrow> error" where
  "errors_Errorc code msg = IError code msg None"

text \<open>
  Modelled from the spec: \<^verbatim>\<open>errors.Wrapf\<close>, which adds a context message to an error
  and preserves the status code embedded in it.
\<close>

definition errors_Wrapf :: "error \<Rightarrow> string \<Rightarrow> error" where
  "errors_Wrapf err msg =
     IError (case err of IError c _ _ \<Rightarrow> c | StdError _ \<Rightarrow> 0) msg (Some err)"

section \<open>Formatting\<close>

text \<open>\<^verbatim>\<open>%d\<close> of \<^verbatim>\<open>fmt\<close>: the decimal digits of an integer, with a minus sign when negative.\<close>

fun decimal :: "nat \<Rightarrow> string" where
  "decimal n =
     (if n < 10 then [char_of (48 + n)]
      else decimal (n div 10) @ [char_of (48 + n mod 10)])"

declare decimal.simps [simp del]

definition fmt_d :: "int \<Rightarrow> string" where
  "fmt_d i = (if i < 0 then ''-'' @ decimal (nat (- i)) else decimal (nat i))"

section \<open>Config\<close>

text \<open>\<^verbatim>\<open>type Config struct { Addr string; Port int }\<close>\<close>

record Config =
  Addr :: string
  Port :: int

text \<open>
  \<^verbatim>\<open>func (c Config) Validate() error\<close>; \<open>None\<close> is Go's \<^verbatim>\<open>nil\<close>. The three checks are
  made in the order of the source, and the first that fails returns.
\<close>

definition Validate :: "Config \<Rightarrow> error option" where
  "Validate c =
     (if Addr c = '''' then Some (errors_Errorf ''missing addr'')
      else if Port c = 0 then Some (errors_Errorf ''missing port'')
      else if Port c < 0 then Some (errors_Errorf (''negative port:'' @ fmt_d (Port c)))
      else None)"

text \<open>An error mentions a phrase when the phrase occurs in the text of \<^verbatim>\<open>Error()\<close>.\<close>

definition mentions :: "error option \<Rightarrow> string \<Rightarrow> bool" where
  "mentions r phrase = (case r of None \<Rightarrow> False | Some e \<Rightarrow> sublist phrase (Error_text e))"

section \<open>The standard library, as far as \<^verbatim>\<open>ServeHTTP\<close> uses it\<close>

subsection \<open>\<^verbatim>\<open>strings\<close>\<close>

text \<open>
  \<^verbatim>\<open>strings.SplitN(s, sep, n)\<close> for a one-byte separator and \<open>n \<ge> 0\<close>: at most \<open>n\<close>
  pieces, the last of them the unsplit remainder; a string without the separator is a
  single piece.
\<close>

fun strings_SplitN :: "string \<Rightarrow> char \<Rightarrow> nat \<Rightarrow> string list" where
  "strings_SplitN s sep 0 = []"
| "strings_SplitN s sep (Suc 0) = [s]"
| "strings_SplitN s sep (Suc (Suc n)) =
     (if sep \<in> set s
      then takeWhile (\<lambda>c. c \<noteq> sep) s #
           strings_SplitN (tl (dropWhile (\<lambda>c. c \<noteq> sep) s)) sep (Suc n)
      else [s])"

text \<open>\<^verbatim>\<open>strings.Join(elems, sep)\<close>\<close>

fun strings_Join :: "string list \<Rightarrow> string \<Rightarrow> string" where
  "strings_Join [] sep = ''''"
| "strings_Join [a] sep = a"
| "strings_Join (a # b # bs) sep = a @ sep @ strings_Join (b # bs) sep"

subsection \<open>\<^verbatim>\<open>net/http\<close>\<close>

definition StatusOK :: int where
  "StatusOK = 200"

definition StatusBadRequest :: int where
  "StatusBadRequest = 400"

definition StatusNotFound :: int where
  "StatusNotFound = 404"

definition StatusInternalServerError :: int where
  "StatusInternalServerError = 500"

text \<open>The table of \<^verbatim>\<open>http.StatusText\<close>: the status codes the package knows, with their texts.\<close>

definition statusText :: "(int \<times> string) list" where
  "statusText =
    [(100, ''Continue''), (101, ''Switching Protocols''), (102, ''Processing''),
     (103, ''Early Hints''),
     (200, ''OK''), (201, ''Created''), (202, ''Accepted''),
     (203, ''Non-Authoritative Information''), (204, ''No Content''),
     (205, ''Reset Content''), (206, ''Partial Content''), (207, ''Multi-Status''),
     (208, ''Already Reported''), (226, ''IM Used''),
     (300, ''Multiple Choices''), (301, ''Moved Permanently''), (302, ''Found''),
     (303, ''See Other''), (304, ''Not Modified''), (305, ''Use Proxy''),
     (307, ''Temporary Redirect''), (308, ''Permanent Redirect''),
     (400, ''Bad Request''), (401, ''Unauthorized''), (402, ''Payment Required''),
     (403, ''Forbidden''), (404, ''Not Found''), (405, ''Method Not Allowed''),
     (406, ''Not Acceptable''), (407, ''Proxy Authentication Required''),
     (408, ''Request Timeout''), (409, ''Conflict''), (410, ''Gone''),
     (411, ''Length Required''), (412, ''Precondition Failed''),
     (413, ''Request Entity Too Large''), (414, ''Request URI Too Long''),
     (415, ''Unsupported Media Type''), (416, ''Requested Range Not Satisfiable''),
     (417, ''Expectation Failed''), (418, ''I'' @ [CHR 0x27] @ ''m a teapot''),
     (421, ''Misdirected Request''), (422, ''Unprocessable Entity''), (423, ''Locked''),
     (424, ''Failed Dependency''), (425, ''Too Early''), (426, ''Upgrade Required''),
     (428, ''Precondition Required''), (429, ''Too Many Requests''),
     (431, ''Request Header Fields Too Large''),
     (451, ''Unavailable For Legal Reasons''),
     (500, ''Internal Server Error''), (501, ''Not Implemented''), (502, ''Bad Gateway''),
     (503, ''Service Unavailable''), (504, ''Gateway Timeout''),
     (505, ''HTTP Version Not Supported''), (506, ''Variant Also Negotiates''),
     (507, ''Insufficient Storage''), (508, ''Loop Detected''), (510, ''Not Extended''),
     (511, ''Network Authentication Required'')]"

text \<open>\<^verbatim>\<open>http.StatusText(code)\<close>: the empty string for a code the package does not know.\<close>

definition http_StatusText :: "int \<Rightarrow> string" where
  "http_StatusText code = (case map_of statusText code of Some t \<Rightarrow> t | None \<Rightarrow> '''')"

text \<open>
  \<^verbatim>\<open>http.ResponseWriter\<close>, by the contract net/http documents for it. \<open>Header\<close> is the
  header map the handler edits. The status line and the headers are sent once, by the
  first \<^verbatim>\<open>WriteHeader\<close> or, failing that, by the first \<^verbatim>\<open>Write\<close> (as status 200); from
  then on \<open>wroteHeader\<close> holds, \<open>Status\<close> and \<open>SentHeader\<close> are what the client
  received, and a later \<^verbatim>\<open>WriteHeader\<close> or a change of \<open>Header\<close> no longer reaches the
  client. \<open>Written\<close> is the body sent so far. A handler that returns without writing
  leaves \<open>wroteHeader\<close> false, and the transport then answers 200 with an empty body.
\<close>

record ResponseWriter =
  Header :: "string \<rightharpoonup> string"
  wroteHeader :: bool
  Status :: int
  SentHeader :: "string \<rightharpoonup> string"
  Written :: string

text \<open>The writer the transport hands to \<^verbatim>\<open>ServeHTTP\<close> for a new request.\<close>

definition newResponse :: ResponseWriter where
  "newResponse =
     \<lparr>Header = Map.empty, wroteHeader = False, Status = 0, SentHeader = Map.empty,
      Written = ''''\<rparr>"

text \<open>\<^verbatim>\<open>w.Header().Set(key, value)\<close>\<close>

definition Header_Set :: "string \<Rightarrow> string \<Rightarrow> ResponseWriter \<Rightarrow> ResponseWriter" where
  "Header_Set key v w = w\<lparr>Header := (Header w)(key \<mapsto> v)\<rparr>"

text \<open>\<^verbatim>\<open>w.WriteHeader(code)\<close>: ignored once the header has been sent.\<close>

definition WriteHeader :: "int \<Rightarrow> ResponseWriter \<Rightarrow> ResponseWriter" where
  "WriteHeader code w =
     (if wroteHeader w then w
      else w\<lparr>wroteHeader := True, Status := code, SentHeader := Header w\<rparr>)"

text \<open>
  \<^verbatim>\<open>w.Write(data)\<close>: "if WriteHeader has not yet been called, Write calls
  WriteHeader(http.StatusOK) before writing the data", also when the data is empty.
\<close>

definition Write :: "string \<Rightarrow> ResponseWriter \<Rightarrow> ResponseWriter" where
  "Write data w =
     (let w' = (if wroteHeader w then w else WriteHeader StatusOK w)
      in w'\<lparr>Written := Written w' @ data\<rparr>)"

text \<open>
  \<^verbatim>\<open>http.Error(w, error, code)\<close>: sets the content type to plain text, sends the status
  and prints the error text followed by a newline.
\<close>

definition http_Error :: "ResponseWriter \<Rightarrow> string \<Rightarrow> int \<Rightarrow> ResponseWriter" where
  "http_Error w msg code =
     Write (msg @ [CHR 0x0A])
       (WriteHeader code
         (Header_Set ''X-Content-Type-Options'' ''nosniff''
           (Header_Set ''Content-Type'' ''text/plain; charset=utf-8'' w)))"

text \<open>\<^verbatim>\<open>*http.Request\<close>: the method, \<^verbatim>\<open>URL.Path\<close> and the bytes of the body.\<close>

record Request =
  Method :: string
  URL_Path :: string
  Body :: string

subsection \<open>\<^verbatim>\<open>io\<close> and \<^verbatim>\<open>encoding/json\<close>\<close>

text \<open>The sentinel \<^verbatim>\<open>io.EOF\<close>.\<close>

definition io_EOF :: error where
  "io_EOF = StdError ''EOF''"

text \<open>The white space JSON allows between values.\<close>

definition json_space :: "char \<Rightarrow> bool" where
  "json_space c = (c = CHR '' '' \<or> c = CHR 0x09 \<or> c = CHR 0x0A \<or> c = CHR 0x0D)"

text \<open>
  \<^verbatim>\<open>reflect.Type\<close> of a request shape, as far as the dispatcher uses it: \<open>TypeString\<close> is
  what \<^verbatim>\<open>%v\<close> prints for the type, \<open>Zero\<close> the zero value \<^verbatim>\<open>reflect.New\<close> allocates,
  \<open>Unmarshal\<close> the type-directed decoding of one JSON value of the input into the
  allocated value (the error, if any, and the value as decoding left it), and
  \<open>Validator\<close> the method \<^verbatim>\<open>Validate\<close> when the pointer implements \<^verbatim>\<open>ms.Validator\<close>
  (the error, if any, and the value as the method left it: it has a pointer to it).
\<close>

record 'q reqtype =
  TypeString :: string
  Zero :: 'q
  Unmarshal :: "string \<Rightarrow> 'q \<Rightarrow> error option \<times> 'q"
  Validator :: "('q \<Rightarrow> error option \<times> 'q) option"

text \<open>
  \<^verbatim>\<open>json.NewDecoder(body).Decode(ptr)\<close>: an input with no JSON value in it (empty, or
  white space only) is \<^verbatim>\<open>io.EOF\<close> and leaves the value untouched; any other input is
  decoded as the type directs.
\<close>

definition json_Decode :: "'q reqtype \<Rightarrow> string \<Rightarrow> 'q \<Rightarrow> error option \<times> 'q" where
  "json_Decode t input v =
     (if list_all json_space input then (Some io_EOF, v) else Unmarshal t input v)"

section \<open>The micro-service behind the server\<close>

text \<open>
  The interfaces of \<^verbatim>\<open>github.com/go-msvc/utils/ms\<close> that \<^verbatim>\<open>ServeHTTP\<close> calls, taken as
  parameters: an operation (\<^verbatim>\<open>ReqType()\<close>, nil when the operation takes no request, and
  \<^verbatim>\<open>Handle(ctx, req)\<close>) and the micro-service (\<^verbatim>\<open>Oper(name)\<close>, \<^verbatim>\<open>OperNames()\<close>,
  \<^verbatim>\<open>NewContext()\<close>). \<open>'q\<close> is the type of request values, \<open>'r\<close> of response values,
  \<open>'c\<close> of contexts.
\<close>

record ('q, 'r, 'c) oper =
  ReqType :: "'q reqtype option"
  Handle :: "'c \<Rightarrow> 'q option \<Rightarrow> 'r option \<times> error option"

record ('q, 'r, 'c) microservice =
  Oper :: "string \<Rightarrow> ('q, 'r, 'c) oper option"
  OperNames :: "string list"
  NewContext :: 'c

section \<open>The server\<close>

text \<open>\<^verbatim>\<open>type server struct { ms ms.MicroService; addr string }\<close>\<close>

record ('q, 'r, 'c) server =
  ms :: "('q, 'r, 'c) microservice"
  addr :: string

text \<open>\<^verbatim>\<open>func (c Config) Create(ms ms.MicroService) (ms.Server, error)\<close>; it never fails.\<close>

definition Create :: "Config \<Rightarrow> ('q, 'r, 'c) microservice \<Rightarrow> ('q, 'r, 'c) server" where
  "Create c m = \<lparr>ms = m, addr = Addr c @ '':'' @ fmt_d (Port c)\<rparr>"

text \<open>
  What one run of \<^verbatim>\<open>ServeHTTP\<close> does to the world: the response writer, the calls it
  made on the micro-service, the operation and the request value, in the order it made
  them, and the levels of the lines it logged.
\<close>

datatype 'q event =
    Call_Oper string
  | Call_OperNames
  | Call_Validate 'q
  | Call_NewContext
  | Call_Handle "'q option"

datatype level = LevelInfo | LevelError

record 'q exec =
  rw :: ResponseWriter
  calls :: "'q event list"
  logged :: "level list"

definition call :: "'q event \<Rightarrow> 'q exec \<Rightarrow> 'q exec" where
  "call ev st = st\<lparr>calls := calls st @ [ev]\<rparr>"

definition logf :: "level \<Rightarrow> 'q exec \<Rightarrow> 'q exec" where
  "logf l st = st\<lparr>logged := logged st @ [l]\<rparr>"

text \<open>
  Lines 59 to 75, the deferred function: it runs when \<^verbatim>\<open>ServeHTTP\<close> returns, on the
  value \<^verbatim>\<open>err\<close> has then.
\<close>

definition deferred :: "error option \<Rightarrow> 'q exec \<Rightarrow> 'q exec" where
  "deferred err st =
     (case err of
        None \<Rightarrow> st
      | Some e \<Rightarrow>
          (let (errCode, st1) =
                 (case e of
                    IError code _ _ \<Rightarrow>
                      (if http_StatusText code \<noteq> '''' then code else StatusInternalServerError,
                       logf LevelInfo st)
                  | StdError _ \<Rightarrow> (StatusInternalServerError, st));
               st2 = (if errCode \<ge> 500 then logf LevelError st1 else st1)
           in st2\<lparr>rw := http_Error (rw st2) (Error_text e) errCode\<rparr>))"

text \<open>Lines 78 to 86: the operation name, or the error the block returns with.\<close>

definition operName_of :: "string \<Rightarrow> error + string" where
  "operName_of path =
     (let names = strings_SplitN path CHR ''/'' 2
      in if length names < 2 \<or> length (names ! 0) \<noteq> 0 \<or> length (names ! 1) = 0
         then Inl (errors_Errorc StatusBadRequest ''URL does not start with /<operName>'')
         else Inr (names ! 1))"

text \<open>
  Lines 93 to 107: the request value (\<open>None\<close> is the nil \<^verbatim>\<open>req\<close> of an operation without
  a request type), or the error the block returns with, and the calls it made. Where
  decoding ends with \<^verbatim>\<open>io.EOF\<close> the source goes on with \<^verbatim>\<open>err\<close> still holding it; line
  101 or line 111 assigns \<^verbatim>\<open>err\<close> again before any return.
\<close>

definition decode_request ::
  "('q, 'r, 'c) oper \<Rightarrow> Request \<Rightarrow> (error + 'q option) \<times> 'q event list" where
  "decode_request op httpReq =
     (case ReqType op of
        None \<Rightarrow> (Inr None, [])
      | Some t \<Rightarrow>
          (let (err, v) = json_Decode t (Body httpReq) (Zero t)
           in if err \<noteq> None \<and> err \<noteq> Some io_EOF
              then (Inl (errors_Errorc StatusBadRequest
                      (''failed to decode body into '' @ TypeString t @ '': '' @
                       fmt_plus_v (the err))), [])
              else (case Validator t of
                      None \<Rightarrow> (Inr (Some v), [])
                    | Some validate \<Rightarrow>
                        (let (verr, v') = validate v
                         in case verr of
                              Some e \<Rightarrow>
                                (Inl (errors_Errorc StatusBadRequest
                                   (''invalid request: '' @ fmt_plus_v e)),
                                 [Call_Validate v])
                            | None \<Rightarrow> (Inr (Some v'), [Call_Validate v])))))"

text \<open>
  Lines 109 to 122: the value of \<^verbatim>\<open>err\<close> at the return and the state then.
  \<open>json_Marshal\<close> is \<^verbatim>\<open>json.Marshal\<close> on response values, a parameter: the error, or the
  bytes. On an error the bytes are nil, and lines 120 and 121 run all the same.
\<close>

definition invoke ::
  "('r \<Rightarrow> error + string) \<Rightarrow> ('q, 'r, 'c) microservice \<Rightarrow> ('q, 'r, 'c) oper \<Rightarrow> string \<Rightarrow>
   'q option \<Rightarrow> 'q exec \<Rightarrow> error option \<times> 'q exec" where
  "invoke json_Marshal m op operName req st =
     (let ctx = NewContext m;
          st1 = call Call_NewContext st;
          (res, err) = Handle op ctx req;
          st2 = call (Call_Handle req) st1
      in case err of
           Some e \<Rightarrow> (Some (errors_Wrapf e (operName @ '' handler failed'')), st2)
         | None \<Rightarrow>
             (case res of
                None \<Rightarrow> (None, st2)
              | Some r \<Rightarrow>
                  (let (jsonRes, merr) =
                         (case json_Marshal r of
                            Inl e \<Rightarrow> ('''', Some e)
                          | Inr data \<Rightarrow> (data, None))
                   in (merr,
                       st2\<lparr>rw := Write jsonRes
                         (Header_Set ''Content-Type'' ''application/json'' (rw st2))\<rparr>))))"

text \<open>
  \<^verbatim>\<open>func (s server) ServeHTTP(httpRes http.ResponseWriter, httpReq *http.Request)\<close>.
  Every return of the source passes through the deferred function.
\<close>

definition ServeHTTP ::
  "('r \<Rightarrow> error + string) \<Rightarrow> ('q, 'r, 'c) server \<Rightarrow> ResponseWriter \<Rightarrow> Request \<Rightarrow> 'q exec" where
  "ServeHTTP json_Marshal s httpRes httpReq =
     (let st0 = \<lparr>rw = httpRes, calls = [], logged = [LevelInfo]\<rparr>
      in case operName_of (URL_Path httpReq) of
           Inl err \<Rightarrow> deferred (Some err) st0
         | Inr operName \<Rightarrow>
             (let st1 = call (Call_Oper operName) st0
              in case Oper (ms s) operName of
                   None \<Rightarrow>
                     deferred
                       (Some (errors_Errorc StatusNotFound
                          (''unknown operation '' @ operName @ '' != '' @
                           strings_Join (OperNames (ms s)) ''|'')))
                       (call Call_OperNames st1)
                 | Some op \<Rightarrow>
                     (case decode_request op httpReq of
                        (Inl err, evs) \<Rightarrow> deferred (Some err) (st1\<lparr>calls := calls st1 @ evs\<rparr>)
                      | (Inr req, evs) \<Rightarrow>
                          (let (err, st2) =
                                 invoke json_Marshal (ms s) op operName req
                                   (st1\<lparr>calls := calls st1 @ evs\<rparr>)
                           in deferred err st2))))"

text \<open>
  The status lines 61 to 65 resolve an error to: its code where the error implements
  \<^verbatim>\<open>errors.IError\<close> and \<^verbatim>\<open>http.StatusText\<close> knows the code, and 500 otherwise.
\<close>

definition errCode_of :: "error \<Rightarrow> int" where
  "errCode_of e =
     (case e of
        IError code _ _ \<Rightarrow>
          if http_StatusText code \<noteq> '''' then code else StatusInternalServerError
      | StdError _ \<Rightarrow> StatusInternalServerError)"

text \<open>
  A request reaches the handler when its path parses, the operation is found, and the
  body decodes and validates.
\<close>

definition reaches_handler :: "('q, 'r, 'c) server \<Rightarrow> Request \<Rightarrow> bool" where
  "reaches_handler s httpReq =
     (case operName_of (URL_Path httpReq) of
        Inl _ \<Rightarrow> False
      | Inr name \<Rightarrow>
          (case Oper (ms s) name of
             None \<Rightarrow> False
           | Some op \<Rightarrow>
               (case fst (decode_request op httpReq) of Inl _ \<Rightarrow> False | Inr _ \<Rightarrow> True)))"

section \<open>The spec's reading of the path\<close>

text \<open>
  The first path segment after the leading separator, in the spec's words: what stands
  between the leading \<^verbatim>\<open>/\<close> and the next \<^verbatim>\<open>/\<close> (or the end of the path).
\<close>

definition first_segment :: "string \<Rightarrow> string" where
  "first_segment path = takeWhile (\<lambda>c. c \<noteq> CHR ''/'') (tl path)"

section \<open>A small service, for the concrete instances\<close>

text \<open>
  Response values: a flag, which marshals to \<^verbatim>\<open>true\<close> or \<^verbatim>\<open>false\<close>, and a channel,
  which \<^verbatim>\<open>json.Marshal\<close> refuses.
\<close>

datatype example_value = Flag bool | Channel

definition example_Marshal :: "example_value \<Rightarrow> error + string" where
  "example_Marshal r =
     (case r of
        Flag b \<Rightarrow> Inr (if b then ''true'' else ''false'')
      | Channel \<Rightarrow> Inl (StdError ''json: unsupported type: chan int''))"

text \<open>
  Request shapes: a Go string, whose JSON is the text between double quotes; once
  plain, once with a \<^verbatim>\<open>Validate\<close> method that rejects the empty name.
\<close>

definition unmarshal_string :: "string \<Rightarrow> string \<Rightarrow> error option \<times> string" where
  "unmarshal_string input v =
     (if 2 \<le> length input \<and> hd input = CHR 0x22 \<and> last input = CHR 0x22
      then (None, butlast (tl input))
      else (Some (StdError ''json: cannot unmarshal into Go value of type string''), v))"

definition string_type :: "string reqtype" where
  "string_type =
     \<lparr>TypeString = ''string'', Zero = '''', Unmarshal = unmarshal_string, Validator = None\<rparr>"

definition name_type :: "string reqtype" where
  "name_type =
     \<lparr>TypeString = ''main.name'', Zero = '''', Unmarshal = unmarshal_string,
      Validator =
        Some (\<lambda>v. (if v = '''' then Some (errors_Errorf ''missing name'') else None, v))\<rparr>"

text \<open>
  Operations: \<open>ping\<close> takes no request and answers a flag; \<open>create\<close> takes a validated
  name and answers nothing; \<open>echo\<close> takes a string and answers whether it got the empty
  one; \<open>dump\<close> answers a value that cannot be marshalled; \<open>busy\<close> fails with status 409
  and \<open>fail\<close> with an error that has no code.
\<close>

definition ping_oper :: "(string, example_value, unit) oper" where
  "ping_oper = \<lparr>ReqType = None, Handle = (\<lambda>ctx req. (Some (Flag True), None))\<rparr>"

definition create_oper :: "(string, example_value, unit) oper" where
  "create_oper = \<lparr>ReqType = Some name_type, Handle = (\<lambda>ctx req. (None, None))\<rparr>"

definition echo_oper :: "(string, example_value, unit) oper" where
  "echo_oper =
     \<lparr>ReqType = Some string_type,
      Handle = (\<lambda>ctx req. (Some (Flag (req = Some '''')), None))\<rparr>"

definition dump_oper :: "(string, example_value, unit) oper" where
  "dump_oper = \<lparr>ReqType = None, Handle = (\<lambda>ctx req. (Some Channel, None))\<rparr>"

definition busy_oper :: "(string, example_value, unit) oper" where
  "busy_oper =
     \<lparr>ReqType = None,
      Handle = (\<lambda>ctx req. (None, Some (errors_Errorc 409 ''already running'')))\<rparr>"

definition fail_oper :: "(string, example_value, unit) oper" where
  "fail_oper =
     \<lparr>ReqType = None, Handle = (\<lambda>ctx req. (None, Some (StdError ''disk full'')))\<rparr>"

definition example_opers :: "(string \<times> (string, example_value, unit) oper) list" where
  "example_opers =
     [(''ping'', ping_oper), (''create'', create_oper), (''echo'', echo_oper),
      (''dump'', dump_oper), (''busy'', busy_oper), (''fail'', fail_oper)]"

definition example_service :: "(string, example_value, unit) microservice" where
  "example_service =
     \<lparr>Oper = map_of example_opers, OperNames = map fst example_opers, NewContext = ()\<rparr>"

definition example_server :: "(string, example_value, unit) server" where
  "example_server = Create \<lparr>Addr = ''localhost'', Port = 8080\<rparr> example_service"

definition request :: "string \<Rightarrow> string \<Rightarrow> string \<Rightarrow> Request" where
  "request m path data = \<lparr>Method = m, URL_Path = path, Body = data\<rparr>"

section \<open>Helper facts\<close>

subsection \<open>Strings and the path\<close>

lemma operName_of_Inr: "operName_of path = Inr name \<longleftrightarrow> path = CHR ''/'' # name \<and> name \<noteq> []"
  by (cases path) (auto simp: operName_of_def numeral_2_eq_2 Let_def)

lemma operName_of_Inl:
  "operName_of path = Inl e \<longleftrightarrow>
     (path = [] \<or> hd path \<noteq> CHR ''/'' \<or> tl path = []) \<and>
     e = errors_Errorc StatusBadRequest ''URL does not start with /<operName>''"
  by (cases path) (auto simp: operName_of_def numeral_2_eq_2 Let_def)

lemma sublist_strings_Join: "n \<in> set names \<Longrightarrow> sublist n (strings_Join names sep)"
proof (induction names sep rule: strings_Join.induct)
  case (1 sep)
  then show ?case by simp
next
  case (2 a sep)
  then show ?case by simp
next
  case (3 a b bs sep)
  show ?case
  proof (cases "n = a")
    case True
    then show ?thesis by simp
  next
    case False
    with 3 have "sublist n (strings_Join (b # bs) sep)" by simp
    then obtain ps ss where "strings_Join (b # bs) sep = ps @ n @ ss"
      by (auto simp: sublist_def)
    then have "strings_Join (a # b # bs) sep = (a @ sep @ ps) @ n @ ss" by simp
    then show ?thesis unfolding sublist_def by blast
  qed
qed

subsection \<open>The deferred function\<close>

lemma deferred_None: "deferred None st = st"
  by (simp add: deferred_def)

lemma calls_deferred: "calls (deferred err st) = calls st"
  by (cases err) (auto simp: deferred_def Let_def logf_def split: error.splits prod.splits)

lemma rw_deferred_fresh:
  "\<not> wroteHeader (rw st) \<Longrightarrow>
   rw (deferred (Some e) st) =
     (let h = (Header (rw st))(''Content-Type'' \<mapsto> ''text/plain; charset=utf-8'',
                 ''X-Content-Type-Options'' \<mapsto> ''nosniff'')
      in \<lparr>Header = h, wroteHeader = True, Status = errCode_of e,
          SentHeader = h, Written = Written (rw st) @ Error_text e @ [CHR 0x0A]\<rparr>)"
  by (cases e)
    (simp_all add: deferred_def Let_def logf_def http_Error_def Write_def WriteHeader_def
      Header_Set_def errCode_of_def StatusInternalServerError_def)

lemma rw_deferred_sent:
  "wroteHeader (rw st) \<Longrightarrow>
   rw (deferred (Some e) st) =
     (rw st)\<lparr>Header := (Header (rw st))(''Content-Type'' \<mapsto> ''text/plain; charset=utf-8'',
                 ''X-Content-Type-Options'' \<mapsto> ''nosniff''),
             Written := Written (rw st) @ Error_text e @ [CHR 0x0A]\<rparr>"
  by (cases e)
    (simp_all add: deferred_def Let_def logf_def http_Error_def Write_def WriteHeader_def
      Header_Set_def StatusInternalServerError_def)

lemma Status_deferred_fresh:
  "\<not> wroteHeader (rw st) \<Longrightarrow>
   Status (rw (deferred (Some e) st)) = errCode_of e \<and> wroteHeader (rw (deferred (Some e) st)) \<and>
   Written (rw (deferred (Some e) st)) = Written (rw st) @ Error_text e @ [CHR 0x0A]"
  by (simp add: rw_deferred_fresh Let_def)

lemma errCode_of_Errorc_400: "errCode_of (errors_Errorc StatusBadRequest msg) = 400"
  by (simp add: errCode_of_def errors_Errorc_def StatusBadRequest_def http_StatusText_def
      statusText_def)

lemma errCode_of_Errorc_404: "errCode_of (errors_Errorc StatusNotFound msg) = 404"
  by (simp add: errCode_of_def errors_Errorc_def StatusNotFound_def http_StatusText_def
      statusText_def)

subsection \<open>The stages of \<^verbatim>\<open>ServeHTTP\<close>\<close>

lemma ServeHTTP_parse_error:
  "operName_of (URL_Path httpReq) = Inl e \<Longrightarrow>
   ServeHTTP m s w httpReq = deferred (Some e) \<lparr>rw = w, calls = [], logged = [LevelInfo]\<rparr>"
  by (simp add: ServeHTTP_def)

lemma ServeHTTP_lookup_miss:
  "operName_of (URL_Path httpReq) = Inr name \<Longrightarrow> Oper (ms s) name = None \<Longrightarrow>
   ServeHTTP m s w httpReq =
     deferred (Some (errors_Errorc StatusNotFound
        (''unknown operation '' @ name @ '' != '' @ strings_Join (OperNames (ms s)) ''|'')))
       \<lparr>rw = w, calls = [Call_Oper name, Call_OperNames], logged = [LevelInfo]\<rparr>"
  by (simp add: ServeHTTP_def call_def)

lemma ServeHTTP_decode_error:
  "operName_of (URL_Path httpReq) = Inr name \<Longrightarrow> Oper (ms s) name = Some op \<Longrightarrow>
   decode_request op httpReq = (Inl e, evs) \<Longrightarrow>
   ServeHTTP m s w httpReq =
     deferred (Some e) \<lparr>rw = w, calls = Call_Oper name # evs, logged = [LevelInfo]\<rparr>"
  by (simp add: ServeHTTP_def call_def)

lemma ServeHTTP_invoke:
  "operName_of (URL_Path httpReq) = Inr name \<Longrightarrow> Oper (ms s) name = Some op \<Longrightarrow>
   decode_request op httpReq = (Inr req, evs) \<Longrightarrow>
   ServeHTTP m s w httpReq =
     (case invoke m (ms s) op name req
             \<lparr>rw = w, calls = Call_Oper name # evs, logged = [LevelInfo]\<rparr> of
        (err, st2) \<Rightarrow> deferred err st2)"
  by (simp add: ServeHTTP_def call_def)

lemma calls_invoke:
  "invoke m svc op name req st = (err, st2) \<Longrightarrow>
   calls st2 = calls st @ [Call_NewContext, Call_Handle req]"
  by (auto simp: invoke_def Let_def call_def split: prod.splits option.splits sum.splits)

lemma decode_request_no_type: "ReqType op = None \<Longrightarrow> decode_request op httpReq = (Inr None, [])"
  by (simp add: decode_request_def)

lemma decode_request_only_Validate:
  "decode_request op httpReq = (res, evs) \<Longrightarrow>
   Call_NewContext \<notin> set evs \<and> (\<forall>q. Call_Handle q \<notin> set evs) \<and> (\<forall>n. Call_Oper n \<notin> set evs)"
  by (auto simp: decode_request_def Let_def split: option.splits prod.splits if_splits)

text \<open>The calls of a run, stage by stage.\<close>

lemma calls_ServeHTTP:
  "calls (ServeHTTP m s w httpReq) =
     (case operName_of (URL_Path httpReq) of
        Inl _ \<Rightarrow> []
      | Inr name \<Rightarrow>
          Call_Oper name #
          (case Oper (ms s) name of
             None \<Rightarrow> [Call_OperNames]
           | Some op \<Rightarrow>
               (case decode_request op httpReq of
                  (Inl _, evs) \<Rightarrow> evs
                | (Inr req, evs) \<Rightarrow> evs @ [Call_NewContext, Call_Handle req])))"
proof (cases "operName_of (URL_Path httpReq)")
  case (Inl e)
  then show ?thesis by (simp add: ServeHTTP_parse_error calls_deferred)
next
  case (Inr name)
  show ?thesis
  proof (cases "Oper (ms s) name")
    case None
    with Inr show ?thesis by (simp add: ServeHTTP_lookup_miss calls_deferred)
  next
    case (Some op)
    obtain res evs where d: "decode_request op httpReq = (res, evs)"
      by (cases "decode_request op httpReq")
    show ?thesis
    proof (cases res)
      case (Inl e)
      with Inr Some d show ?thesis by (simp add: ServeHTTP_decode_error calls_deferred)
    next
      case r: (Inr req)
      obtain err st2 where i: "invoke m (ms s) op name req
          \<lparr>rw = w, calls = Call_Oper name # evs, logged = [LevelInfo]\<rparr> = (err, st2)"
        by (cases "invoke m (ms s) op name req
          \<lparr>rw = w, calls = Call_Oper name # evs, logged = [LevelInfo]\<rparr>")
      from calls_invoke [OF i] Inr Some d r i show ?thesis
        by (simp add: ServeHTTP_invoke calls_deferred)
    qed
  qed
qed

text \<open>
  A path that does not start with \<^verbatim>\<open>/\<close>, or that has nothing after it, is answered with
  status 400 and the message of line 82, and no call is made on the micro-service.
\<close>

lemma ServeHTTP_bad_path:
  assumes "URL_Path httpReq = [] \<or> hd (URL_Path httpReq) \<noteq> CHR ''/'' \<or> tl (URL_Path httpReq) = []"
  shows "Status (rw (ServeHTTP json_Marshal s newResponse httpReq)) = 400 \<and>
         Written (rw (ServeHTTP json_Marshal s newResponse httpReq)) =
           ''URL does not start with /<operName>'' @ [CHR 0x0A] \<and>
         calls (ServeHTTP json_Marshal s newResponse httpReq) = []"
proof -
  from assms have p: "operName_of (URL_Path httpReq) =
      Inl (errors_Errorc StatusBadRequest ''URL does not start with /<operName>'')"
    by (simp add: operName_of_Inl)
  have c: "calls (ServeHTTP json_Marshal s newResponse httpReq) = []"
    using p by (simp add: calls_ServeHTTP)
  have "Status (rw (ServeHTTP json_Marshal s newResponse httpReq)) = 400 \<and>
      Written (rw (ServeHTTP json_Marshal s newResponse httpReq)) =
        Error_text (errors_Errorc StatusBadRequest ''URL does not start with /<operName>'') @
        [CHR 0x0A]"
    unfolding ServeHTTP_parse_error [OF p, of json_Marshal s newResponse]
    by (simp add: Status_deferred_fresh newResponse_def errCode_of_Errorc_400)
  with c show ?thesis by (simp add: errors_Errorc_def)
qed

text \<open>
  A handler error that carries no code, or a code \<^verbatim>\<open>http.StatusText\<close> does not know, is
  answered with status 500.
\<close>

lemma ServeHTTP_handler_error_default:
  assumes "operName_of (URL_Path httpReq) = Inr name"
    and "Oper (ms s) name = Some op"
    and "decode_request op httpReq = (Inr req, evs)"
    and "Handle op (NewContext (ms s)) req = (res, Some e)"
    and "case e of StdError _ \<Rightarrow> True | IError code _ _ \<Rightarrow> http_StatusText code = ''''"
  shows "wroteHeader (rw (ServeHTTP json_Marshal s newResponse httpReq)) \<and>
         Status (rw (ServeHTTP json_Marshal s newResponse httpReq)) = 500"
  using assms
  by (cases e)
    (simp_all add: ServeHTTP_invoke invoke_def Let_def call_def rw_deferred_fresh
      newResponse_def errors_Wrapf_def errCode_of_def StatusInternalServerError_def
      http_StatusText_def statusText_def)

subsection \<open>The small service\<close>

lemma example_Oper: "Oper (ms example_server) n = map_of example_opers n"
  by (simp add: example_server_def Create_def example_service_def)

lemma example_OperNames:
  "OperNames (ms example_server) = [''ping'', ''create'', ''echo'', ''dump'', ''busy'', ''fail'']"
  by (simp add: example_server_def Create_def example_service_def example_opers_def)

lemma request_simps:
  "URL_Path (request m p d) = p" "Body (request m p d) = d" "Method (request m p d) = m"
  by (simp_all add: request_def)

section \<open>Response encoding\<close>

text \<open>
  C1. The claim: a response value that fails JSON serialization is reported through the
  terminal error translator, so the response carries the status the translator resolves
  (500 for an error without a recognized code) and the error text as body. The code
  assigns the error of \<^verbatim>\<open>json.Marshal\<close> to \<^verbatim>\<open>err\<close>, but goes on to set the content
  type and to call \<^verbatim>\<open>Write\<close> with the nil bytes (lines 119 to 121) before the deferred
  translator runs. For every request whose handler returns a value that fails to marshal,
  the client therefore receives status 200 with content type \<^verbatim>\<open>application/json\<close>; the
  translator's \<^verbatim>\<open>WriteHeader\<close> comes too late, and only the error text reaches the body.
\<close>

theorem ServeHTTP_marshal_error:
  assumes "operName_of (URL_Path httpReq) = Inr name"
    and "Oper (ms s) name = Some op"
    and "decode_request op httpReq = (Inr req, evs)"
    and "Handle op (NewContext (ms s)) req = (Some r, None)"
    and "json_Marshal r = Inl e"
  shows "rw (ServeHTTP json_Marshal s newResponse httpReq) =
           \<lparr>Header = [''Content-Type'' \<mapsto> ''text/plain; charset=utf-8'',
                       ''X-Content-Type-Options'' \<mapsto> ''nosniff''],
            wroteHeader = True, Status = 200,
            SentHeader = [''Content-Type'' \<mapsto> ''application/json''],
            Written = Error_text e @ [CHR 0x0A]\<rparr>"
  using assms
  by (simp add: ServeHTTP_invoke invoke_def Let_def call_def rw_deferred_sent Write_def
      WriteHeader_def Header_Set_def StatusOK_def newResponse_def)

text \<open>The instance: \<^verbatim>\<open>GET /dump\<close>, whose handler answers a channel.\<close>

theorem ServeHTTP_marshal_error_witness:
  "rw (ServeHTTP example_Marshal example_server newResponse (request ''GET'' ''/dump'' '''')) =
     \<lparr>Header = [''Content-Type'' \<mapsto> ''text/plain; charset=utf-8'',
                 ''X-Content-Type-Options'' \<mapsto> ''nosniff''],
      wroteHeader = True, Status = 200,
      SentHeader = [''Content-Type'' \<mapsto> ''application/json''],
      Written = ''json: unsupported type: chan int'' @ [CHR 0x0A]\<rparr>"
proof -
  have p: "operName_of (URL_Path (request ''GET'' ''/dump'' '''')) = Inr ''dump''"
    by (simp add: operName_of_Inr request_simps)
  have l: "Oper (ms example_server) ''dump'' = Some dump_oper"
    by (simp add: example_Oper example_opers_def)
  have d: "decode_request dump_oper (request ''GET'' ''/dump'' '''') = (Inr None, [])"
    by (simp add: decode_request_no_type dump_oper_def)
  have h: "Handle dump_oper (NewContext (ms example_server)) None = (Some Channel, None)"
    by (simp add: dump_oper_def)
  have m: "example_Marshal Channel = Inl (StdError ''json: unsupported type: chan int'')"
    by (simp add: example_Marshal_def)
  from ServeHTTP_marshal_error [where json_Marshal = example_Marshal, OF p l d h m] show ?thesis
    by simp
qed

text \<open>
  C9. For every request whose handler returns a non-nil response value that serializes
  successfully, the response is the JSON serialization of that value as body, with
  header \<^verbatim>\<open>Content-Type: application/json\<close> and status 200; for a nil response value with
  no error, nothing is written: no header is sent and the body is empty.
\<close>

theorem ServeHTTP_response:
  assumes "operName_of (URL_Path httpReq) = Inr name"
    and "Oper (ms s) name = Some op"
    and "decode_request op httpReq = (Inr req, evs)"
  shows "(\<forall>r data. Handle op (NewContext (ms s)) req = (Some r, None) \<and> json_Marshal r = Inr data \<longrightarrow>
           rw (ServeHTTP json_Marshal s newResponse httpReq) =
             \<lparr>Header = [''Content-Type'' \<mapsto> ''application/json''], wroteHeader = True,
              Status = 200, SentHeader = [''Content-Type'' \<mapsto> ''application/json''],
              Written = data\<rparr>) \<and>
         (Handle op (NewContext (ms s)) req = (None, None) \<longrightarrow>
           rw (ServeHTTP json_Marshal s newResponse httpReq) = newResponse)"
  using assms
  by (auto simp: ServeHTTP_invoke invoke_def Let_def call_def deferred_None Write_def
      WriteHeader_def Header_Set_def StatusOK_def newResponse_def)

text \<open>
  The instances: \<^verbatim>\<open>GET /ping\<close> answers \<^verbatim>\<open>true\<close>; \<^verbatim>\<open>POST /create\<close> with the body
  \<^verbatim>\<open>"bob"\<close> answers nothing.
\<close>

theorem ServeHTTP_response_witness:
  "rw (ServeHTTP example_Marshal example_server newResponse (request ''GET'' ''/ping'' '''')) =
     \<lparr>Header = [''Content-Type'' \<mapsto> ''application/json''], wroteHeader = True, Status = 200,
      SentHeader = [''Content-Type'' \<mapsto> ''application/json''], Written = ''true''\<rparr> \<and>
   rw (ServeHTTP example_Marshal example_server newResponse
         (request ''POST'' ''/create'' (CHR 0x22 # ''bob'' @ [CHR 0x22]))) = newResponse"
proof -
  have p: "operName_of (URL_Path (request ''GET'' ''/ping'' '''')) = Inr ''ping''"
    by (simp add: operName_of_Inr request_simps)
  have l: "Oper (ms example_server) ''ping'' = Some ping_oper"
    by (simp add: example_Oper example_opers_def)
  have d: "decode_request ping_oper (request ''GET'' ''/ping'' '''') = (Inr None, [])"
    by (simp add: decode_request_no_type ping_oper_def)
  have p': "operName_of (URL_Path (request ''POST'' ''/create'' (CHR 0x22 # ''bob'' @ [CHR 0x22]))) =
      Inr ''create''"
    by (simp add: operName_of_Inr request_simps)
  have l': "Oper (ms example_server) ''create'' = Some create_oper"
    by (simp add: example_Oper example_opers_def)
  have d': "decode_request create_oper (request ''POST'' ''/create'' (CHR 0x22 # ''bob'' @ [CHR 0x22])) =
      (Inr (Some ''bob''), [Call_Validate ''bob''])"
    by (simp add: decode_request_def create_oper_def name_type_def json_Decode_def json_space_def
        unmarshal_string_def request_simps)
  from ServeHTTP_response [OF p l d, of example_Marshal]
    ServeHTTP_response [OF p' l' d', of example_Marshal]
  show ?thesis
    by (simp add: ping_oper_def create_oper_def example_Marshal_def)
qed

section \<open>The operation name\<close>

text \<open>
  C2. The claim: for a path of the valid form, the name looked up in the registry is the
  first path segment after the leading separator. The code splits the path into at most
  two pieces (line 80) and takes the second, which is everything after the leading
  separator. For every path with a further segment, \<^verbatim>\<open>/seg/rest\<close>, the first segment is
  \<open>seg\<close>, but the name the dispatcher looks up is \<open>seg/rest\<close>, and \<open>seg\<close> is never
  looked up.
\<close>

theorem operName_is_rest_of_path:
  assumes "URL_Path httpReq = CHR ''/'' # seg @ CHR ''/'' # rest"
    and "seg \<noteq> []" and "CHR ''/'' \<notin> set seg"
  shows "first_segment (URL_Path httpReq) = seg \<and>
         operName_of (URL_Path httpReq) = Inr (seg @ CHR ''/'' # rest) \<and>
         hd (calls (ServeHTTP json_Marshal s w httpReq)) = Call_Oper (seg @ CHR ''/'' # rest) \<and>
         Call_Oper seg \<notin> set (calls (ServeHTTP json_Marshal s w httpReq))"
proof -
  have f: "first_segment (URL_Path httpReq) = seg"
    using assms by (auto simp: first_segment_def takeWhile_tail takeWhile_eq_all_conv)
  have p: "operName_of (URL_Path httpReq) = Inr (seg @ CHR ''/'' # rest)"
    using assms by (simp add: operName_of_Inr)
  have ne: "seg \<noteq> seg @ CHR ''/'' # rest" by simp
  have c: "hd (calls (ServeHTTP json_Marshal s w httpReq)) = Call_Oper (seg @ CHR ''/'' # rest) \<and>
      Call_Oper seg \<notin> set (calls (ServeHTTP json_Marshal s w httpReq))"
  proof (cases "Oper (ms s) (seg @ CHR ''/'' # rest)")
    case None
    with p ne show ?thesis by (simp add: calls_ServeHTTP)
  next
    case (Some op)
    obtain res evs where d: "decode_request op httpReq = (res, evs)"
      by (cases "decode_request op httpReq")
    from decode_request_only_Validate [OF d] p Some d ne show ?thesis
      by (cases res) (simp_all add: calls_ServeHTTP)
  qed
  with f p show ?thesis by simp
qed

text \<open>
  The instance: \<^verbatim>\<open>GET /ping/x\<close>. The operation \<open>ping\<close> is registered, and the name
  looked up is \<open>ping/x\<close>.
\<close>

theorem operName_is_rest_of_path_witness:
  "first_segment (URL_Path (request ''GET'' ''/ping/x'' '''')) = ''ping'' \<and>
   Oper (ms example_server) ''ping'' = Some ping_oper \<and>
   operName_of (URL_Path (request ''GET'' ''/ping/x'' '''')) = Inr ''ping/x'' \<and>
   hd (calls (ServeHTTP example_Marshal example_server newResponse
     (request ''GET'' ''/ping/x'' ''''))) = Call_Oper ''ping/x'' \<and>
   Call_Oper ''ping'' \<notin> set (calls (ServeHTTP example_Marshal example_server newResponse
     (request ''GET'' ''/ping/x'' '''')))"
proof -
  have u: "URL_Path (request ''GET'' ''/ping/x'' '''') = CHR ''/'' # ''ping'' @ CHR ''/'' # ''x''"
    by (simp add: request_simps)
  have n: "''ping'' \<noteq> ''''" and s: "CHR ''/'' \<notin> set ''ping''"
    by simp_all
  have l: "Oper (ms example_server) ''ping'' = Some ping_oper"
    by (simp add: example_Oper example_opers_def)
  from operName_is_rest_of_path [OF u n s, of example_Marshal example_server newResponse] l
  show ?thesis by simp
qed

text \<open>
  C6. The claim: a path that does not start with the separator, or whose first segment is
  empty, is answered with status 400 and without consulting the registry. That holds
  for a path without the leading separator and for the path \<^verbatim>\<open>/\<close> (lemma
  \<open>ServeHTTP_bad_path\<close>). For a path that starts with two separators the first segment
  is empty as well, but line 81 tests the whole remainder: the registry is consulted with
  the name \<^verbatim>\<open>/rest\<close>, and where it has no such operation the answer is status 404.
\<close>

theorem empty_first_segment_is_looked_up:
  assumes "URL_Path httpReq = CHR ''/'' # CHR ''/'' # rest"
  shows "first_segment (URL_Path httpReq) = '''' \<and>
         hd (calls (ServeHTTP json_Marshal s newResponse httpReq)) = Call_Oper (CHR ''/'' # rest) \<and>
         (Oper (ms s) (CHR ''/'' # rest) = None \<longrightarrow>
            Status (rw (ServeHTTP json_Marshal s newResponse httpReq)) = 404)"
proof -
  have p: "operName_of (URL_Path httpReq) = Inr (CHR ''/'' # rest)"
    using assms by (simp add: operName_of_Inr)
  have "Status (rw (ServeHTTP json_Marshal s newResponse httpReq)) = 404"
    if "Oper (ms s) (CHR ''/'' # rest) = None"
    using ServeHTTP_lookup_miss [OF p that, of json_Marshal newResponse]
    by (simp add: Status_deferred_fresh newResponse_def errCode_of_Errorc_404)
  with p assms show ?thesis
    by (simp add: calls_ServeHTTP first_segment_def)
qed

text \<open>The instance: \<^verbatim>\<open>GET //ping\<close>.\<close>

theorem empty_first_segment_is_looked_up_witness:
  "first_segment (URL_Path (request ''GET'' ''//ping'' '''')) = '''' \<and>
   hd (calls (ServeHTTP example_Marshal example_server newResponse
     (request ''GET'' ''//ping'' ''''))) = Call_Oper ''/ping'' \<and>
   Status (rw (ServeHTTP example_Marshal example_server newResponse
     (request ''GET'' ''//ping'' ''''))) = 404"
proof -
  have u: "URL_Path (request ''GET'' ''//ping'' '''') = CHR ''/'' # CHR ''/'' # ''ping''"
    by (simp add: request_simps)
  have l: "Oper (ms example_server) ''/ping'' = None"
    by (simp add: example_Oper example_opers_def)
  from empty_first_segment_is_looked_up [OF u, of example_Marshal example_server] l
  show ?thesis by simp
qed

section \<open>Operation lookup\<close>

text \<open>
  C7. For every parsed operation name that the registry does not have, the response is
  status 404, and its body is \<^verbatim>\<open>unknown operation <name> != \<close> followed by all
  registered operation names joined by \<^verbatim>\<open>|\<close> and a newline; every registered name
  occurs in the body.
\<close>

theorem ServeHTTP_unknown_operation:
  assumes "operName_of (URL_Path httpReq) = Inr name"
    and "Oper (ms s) name = None"
  shows "wroteHeader (rw (ServeHTTP json_Marshal s newResponse httpReq)) \<and>
    Status (rw (ServeHTTP json_Marshal s newResponse httpReq)) = 404 \<and>
    Written (rw (ServeHTTP json_Marshal s newResponse httpReq)) =
      ''unknown operation '' @ name @ '' != '' @ strings_Join (OperNames (ms s)) ''|'' @
      [CHR 0x0A] \<and>
    (\<forall>n \<in> set (OperNames (ms s)).
       sublist n (Written (rw (ServeHTTP json_Marshal s newResponse httpReq))))"
proof -
  let ?names = "strings_Join (OperNames (ms s)) ''|''"
  let ?r = "rw (ServeHTTP json_Marshal s newResponse httpReq)"
  have r: "ServeHTTP json_Marshal s newResponse httpReq =
      deferred (Some (errors_Errorc StatusNotFound
        (''unknown operation '' @ name @ '' != '' @ ?names)))
       \<lparr>rw = newResponse, calls = [Call_Oper name, Call_OperNames], logged = [LevelInfo]\<rparr>"
    using assms by (rule ServeHTTP_lookup_miss)
  have w: "wroteHeader ?r" and st: "Status ?r = 404"
    and b: "Written ?r = ''unknown operation '' @ name @ '' != '' @ ?names @ [CHR 0x0A]"
    unfolding r
    by (simp_all add: rw_deferred_fresh newResponse_def errors_Errorc_def errCode_of_def StatusInternalServerError_def
        StatusNotFound_def http_StatusText_def statusText_def Let_def)
  have "sublist n (Written ?r)" if "n \<in> set (OperNames (ms s))" for n
  proof -
    from that obtain ps ss where "?names = ps @ n @ ss"
      using sublist_strings_Join [of n "OperNames (ms s)" "''|''"] by (auto simp: sublist_def)
    then have "Written ?r = (''unknown operation '' @ name @ '' != '' @ ps) @ n @ (ss @ [CHR 0x0A])"
      unfolding b by simp
    then show ?thesis unfolding sublist_def by blast
  qed
  with w st b show ?thesis by blast
qed

text \<open>The instance: \<^verbatim>\<open>GET /nope\<close>.\<close>

theorem ServeHTTP_unknown_operation_witness:
  "Status (rw (ServeHTTP example_Marshal example_server newResponse (request ''GET'' ''/nope'' ''''))) = 404 \<and>
   Written (rw (ServeHTTP example_Marshal example_server newResponse (request ''GET'' ''/nope'' ''''))) =
     ''unknown operation nope != ping|create|echo|dump|busy|fail'' @ [CHR 0x0A]"
proof -
  have p: "operName_of (URL_Path (request ''GET'' ''/nope'' '''')) = Inr ''nope''"
    by (simp add: operName_of_Inr request_simps)
  have l: "Oper (ms example_server) ''nope'' = None"
    by (simp add: example_Oper example_opers_def)
  from ServeHTTP_unknown_operation [OF p l, of example_Marshal] show ?thesis
    by (simp add: example_OperNames)
qed

section \<open>The execution context\<close>

text \<open>
  C3, as amended. \<^verbatim>\<open>NewContext()\<close> is invoked exactly once, immediately before the
  handler, for every request that reaches the handler (its path parses, its operation is
  found, its body decodes and validates); for a request that fails at parsing, lookup,
  decoding or validation it is not invoked at all, and neither is the handler.
\<close>

theorem NewContext_once_before_Handle:
  "count_list (calls (ServeHTTP json_Marshal s w httpReq)) Call_NewContext =
     (if reaches_handler s httpReq then 1 else 0) \<and>
   (reaches_handler s httpReq \<longrightarrow>
     (\<exists>pre req. calls (ServeHTTP json_Marshal s w httpReq) =
         pre @ [Call_NewContext, Call_Handle req] \<and>
       (\<forall>q. Call_Handle q \<notin> set pre))) \<and>
   (\<not> reaches_handler s httpReq \<longrightarrow>
     (\<forall>q. Call_Handle q \<notin> set (calls (ServeHTTP json_Marshal s w httpReq))))"
proof (cases "operName_of (URL_Path httpReq)")
  case (Inl e)
  then show ?thesis by (simp add: calls_ServeHTTP reaches_handler_def)
next
  case (Inr name)
  show ?thesis
  proof (cases "Oper (ms s) name")
    case None
    with Inr show ?thesis by (simp add: calls_ServeHTTP reaches_handler_def)
  next
    case (Some op)
    obtain res evs where d: "decode_request op httpReq = (res, evs)"
      by (cases "decode_request op httpReq")
    note ev = decode_request_only_Validate [OF d]
    show ?thesis
    proof (cases res)
      case (Inl e)
      with Inr Some d ev show ?thesis
        by (simp add: calls_ServeHTTP reaches_handler_def count_list_0_iff)
    next
      case r: (Inr req)
      have c: "calls (ServeHTTP json_Marshal s w httpReq) =
          (Call_Oper name # evs) @ [Call_NewContext, Call_Handle req]"
        using Inr Some d r by (simp add: calls_ServeHTTP)
      have n: "count_list evs Call_NewContext = 0"
        using ev by (simp add: count_list_0_iff)
      have h: "\<forall>q. Call_Handle q \<notin> set (Call_Oper name # evs)"
        using ev by simp
      have rh: "reaches_handler s httpReq"
        using Inr Some d r by (simp add: reaches_handler_def)
      from c n have one: "count_list (calls (ServeHTTP json_Marshal s w httpReq)) Call_NewContext = 1"
        by simp
      from c h have "\<exists>pre req. calls (ServeHTTP json_Marshal s w httpReq) =
          pre @ [Call_NewContext, Call_Handle req] \<and> (\<forall>q. Call_Handle q \<notin> set pre)"
        by blast
      with rh one show ?thesis by simp
    qed
  qed
qed

text \<open>The instances: \<^verbatim>\<open>GET /ping\<close> reaches the handler, \<^verbatim>\<open>GET /nope\<close> does not.\<close>

theorem NewContext_once_before_Handle_witness:
  "reaches_handler example_server (request ''GET'' ''/ping'' '''') \<and>
   count_list (calls (ServeHTTP example_Marshal example_server newResponse
     (request ''GET'' ''/ping'' ''''))) Call_NewContext = 1 \<and>
   \<not> reaches_handler example_server (request ''GET'' ''/nope'' '''') \<and>
   count_list (calls (ServeHTTP example_Marshal example_server newResponse
     (request ''GET'' ''/nope'' ''''))) Call_NewContext = 0"
proof -
  have a: "reaches_handler example_server (request ''GET'' ''/ping'' '''')"
    by (simp add: reaches_handler_def operName_of_def numeral_2_eq_2 request_simps example_Oper
        example_opers_def decode_request_no_type ping_oper_def)
  have b: "\<not> reaches_handler example_server (request ''GET'' ''/nope'' '''')"
    by (simp add: reaches_handler_def operName_of_def numeral_2_eq_2 request_simps example_Oper
        example_opers_def)
  from a b NewContext_once_before_Handle [of example_Marshal example_server newResponse
      "request ''GET'' ''/ping'' ''''"]
    NewContext_once_before_Handle [of example_Marshal example_server newResponse
      "request ''GET'' ''/nope'' ''''"]
  show ?thesis by simp
qed

text \<open>
  The claim as stated, one invocation for every inbound request, fails for a request that
  does not parse: the path \<^verbatim>\<open>nope\<close> is answered with status 400, and no call is made.
\<close>

theorem NewContext_every_request_counterexample:
  "count_list (calls (ServeHTTP example_Marshal example_server newResponse
     (request ''GET'' ''nope'' ''''))) Call_NewContext = 0 \<and>
   calls (ServeHTTP example_Marshal example_server newResponse
     (request ''GET'' ''nope'' '''')) = [] \<and>
   Status (rw (ServeHTTP example_Marshal example_server newResponse
     (request ''GET'' ''nope'' ''''))) = 400"
proof -
  have "URL_Path (request ''GET'' ''nope'' '''') = [] \<or>
      hd (URL_Path (request ''GET'' ''nope'' '''')) \<noteq> CHR ''/'' \<or>
      tl (URL_Path (request ''GET'' ''nope'' '''')) = []"
    by (simp add: request_simps)
  from ServeHTTP_bad_path [OF this, of example_Marshal example_server] show ?thesis
    by simp
qed

section \<open>Handler errors\<close>



text \<open>
  C5. The claim: every error that reaches the terminal translator without a code, or with
  a code that is not a recognized HTTP status, is answered with status 500. That holds
  for handler errors (lemma \<open>ServeHTTP_handler_error_default\<close>). It fails for the
  error of \<^verbatim>\<open>json.Marshal\<close>: the translator resolves it to 500, but by then line 121 has
  sent the header, and the status the client receives is 200.
\<close>

theorem ServeHTTP_marshal_error_status:
  assumes "operName_of (URL_Path httpReq) = Inr name"
    and "Oper (ms s) name = Some op"
    and "decode_request op httpReq = (Inr req, evs)"
    and "Handle op (NewContext (ms s)) req = (Some r, None)"
    and "json_Marshal r = Inl e"
    and "case e of StdError _ \<Rightarrow> True | IError code _ _ \<Rightarrow> http_StatusText code = ''''"
  shows "errCode_of e = 500 \<and> Status (rw (ServeHTTP json_Marshal s newResponse httpReq)) = 200"
  using assms
  by (cases e)
    (simp_all add: ServeHTTP_invoke invoke_def Let_def call_def rw_deferred_sent Write_def
      WriteHeader_def Header_Set_def StatusOK_def newResponse_def errCode_of_def
      StatusInternalServerError_def)

text \<open>The instance: \<^verbatim>\<open>GET /dump\<close>.\<close>

theorem ServeHTTP_marshal_error_status_witness:
  "errCode_of (StdError ''json: unsupported type: chan int'') = 500 \<and>
   Status (rw (ServeHTTP example_Marshal example_server newResponse (request ''GET'' ''/dump'' ''''))) = 200"
proof -
  have p: "operName_of (URL_Path (request ''GET'' ''/dump'' '''')) = Inr ''dump''"
    by (simp add: operName_of_Inr request_simps)
  have l: "Oper (ms example_server) ''dump'' = Some dump_oper"
    by (simp add: example_Oper example_opers_def)
  have d: "decode_request dump_oper (request ''GET'' ''/dump'' '''') = (Inr None, [])"
    by (simp add: decode_request_no_type dump_oper_def)
  have h: "Handle dump_oper (NewContext (ms example_server)) None = (Some Channel, None)"
    by (simp add: dump_oper_def)
  have m: "example_Marshal Channel = Inl (StdError ''json: unsupported type: chan int'')"
    by (simp add: example_Marshal_def)
  from ServeHTTP_marshal_error_status [where json_Marshal = example_Marshal, OF p l d h m] show ?thesis
    by simp
qed

section \<open>Decoding and validation\<close>

text \<open>
  C8, as amended. For an operation that declares a request shape, an empty body is not a
  decoding error: decoding ends with \<^verbatim>\<open>io.EOF\<close> and leaves the zero value of the shape,
  which goes on to validation. When the shape has no \<^verbatim>\<open>Validate\<close> method the handler is
  invoked with the zero value; when \<^verbatim>\<open>Validate\<close> accepts the zero value the handler is
  invoked with the value as the method left it; when \<^verbatim>\<open>Validate\<close> rejects it the
  response is status 400 and the handler is not invoked. Any decoding error other than
  \<^verbatim>\<open>io.EOF\<close> is answered with status 400, and nothing but the lookup is called.
\<close>

theorem ServeHTTP_empty_body:
  assumes "operName_of (URL_Path httpReq) = Inr name"
    and "Oper (ms s) name = Some op"
    and "ReqType op = Some t"
  shows "(Body httpReq = '''' \<longrightarrow>
           (case Validator t of
              None \<Rightarrow>
                calls (ServeHTTP json_Marshal s newResponse httpReq) =
                  [Call_Oper name, Call_NewContext, Call_Handle (Some (Zero t))]
            | Some validate \<Rightarrow>
                (case validate (Zero t) of
                   (None, v) \<Rightarrow>
                     calls (ServeHTTP json_Marshal s newResponse httpReq) =
                       [Call_Oper name, Call_Validate (Zero t), Call_NewContext,
                        Call_Handle (Some v)]
                 | (Some e, v) \<Rightarrow>
                     calls (ServeHTTP json_Marshal s newResponse httpReq) =
                       [Call_Oper name, Call_Validate (Zero t)] \<and>
                     Status (rw (ServeHTTP json_Marshal s newResponse httpReq)) = 400))) \<and>
         (\<forall>e v. json_Decode t (Body httpReq) (Zero t) = (Some e, v) \<and> e \<noteq> io_EOF \<longrightarrow>
            calls (ServeHTTP json_Marshal s newResponse httpReq) = [Call_Oper name] \<and>
            Status (rw (ServeHTTP json_Marshal s newResponse httpReq)) = 400)"
proof (intro conjI impI allI)
  assume b: "Body httpReq = ''''"
  then have dec: "json_Decode t (Body httpReq) (Zero t) = (Some io_EOF, Zero t)"
    by (simp add: json_Decode_def)
  show "case Validator t of
          None \<Rightarrow>
            calls (ServeHTTP json_Marshal s newResponse httpReq) =
              [Call_Oper name, Call_NewContext, Call_Handle (Some (Zero t))]
        | Some validate \<Rightarrow>
            (case validate (Zero t) of
               (None, v) \<Rightarrow>
                 calls (ServeHTTP json_Marshal s newResponse httpReq) =
                   [Call_Oper name, Call_Validate (Zero t), Call_NewContext,
                    Call_Handle (Some v)]
             | (Some e, v) \<Rightarrow>
                 calls (ServeHTTP json_Marshal s newResponse httpReq) =
                   [Call_Oper name, Call_Validate (Zero t)] \<and>
                 Status (rw (ServeHTTP json_Marshal s newResponse httpReq)) = 400)"
  proof (cases "Validator t")
    case None
    with assms dec have "decode_request op httpReq = (Inr (Some (Zero t)), [])"
      by (simp add: decode_request_def)
    with assms None show ?thesis by (simp add: calls_ServeHTTP)
  next
    case (Some validate)
    obtain verr v where val: "validate (Zero t) = (verr, v)"
      by (cases "validate (Zero t)")
    show ?thesis
    proof (cases verr)
      case None
      with assms dec Some val
      have "decode_request op httpReq = (Inr (Some v), [Call_Validate (Zero t)])"
        by (simp add: decode_request_def)
      with assms Some val None show ?thesis by (simp add: calls_ServeHTTP)
    next
      case e: (Some e)
      with assms dec Some val
      have d: "decode_request op httpReq =
          (Inl (errors_Errorc StatusBadRequest (''invalid request: '' @ fmt_plus_v e)),
           [Call_Validate (Zero t)])"
        by (simp add: decode_request_def)
      from ServeHTTP_decode_error [OF assms(1,2) d, of json_Marshal newResponse]
      have "Status (rw (ServeHTTP json_Marshal s newResponse httpReq)) = 400"
        by (simp add: Status_deferred_fresh newResponse_def errCode_of_Errorc_400)
      with assms Some val e d show ?thesis by (simp add: calls_ServeHTTP)
    qed
  qed
next
  fix e v
  assume "json_Decode t (Body httpReq) (Zero t) = (Some e, v) \<and> e \<noteq> io_EOF"
  with assms have d: "decode_request op httpReq =
      (Inl (errors_Errorc StatusBadRequest
         (''failed to decode body into '' @ TypeString t @ '': '' @ fmt_plus_v e)), [])"
    by (simp add: decode_request_def)
  from ServeHTTP_decode_error [OF assms(1,2) d, of json_Marshal newResponse]
  show "Status (rw (ServeHTTP json_Marshal s newResponse httpReq)) = 400"
    by (simp add: Status_deferred_fresh newResponse_def errCode_of_Errorc_400)
  from assms d show "calls (ServeHTTP json_Marshal s newResponse httpReq) = [Call_Oper name]"
    by (simp add: calls_ServeHTTP)
qed

text \<open>
  The instances: \<^verbatim>\<open>POST /echo\<close> with an empty body invokes the handler with the empty
  string; with the body \<^verbatim>\<open>{\<close> it is answered with status 400.
\<close>

theorem ServeHTTP_empty_body_witness:
  "calls (ServeHTTP example_Marshal example_server newResponse (request ''POST'' ''/echo'' '''')) =
     [Call_Oper ''echo'', Call_NewContext, Call_Handle (Some '''')] \<and>
   calls (ServeHTTP example_Marshal example_server newResponse (request ''POST'' ''/echo'' ''{'')) =
     [Call_Oper ''echo''] \<and>
   Status (rw (ServeHTTP example_Marshal example_server newResponse
     (request ''POST'' ''/echo'' ''{''))) = 400"
proof -
  have p: "operName_of (URL_Path (request ''POST'' ''/echo'' body)) = Inr ''echo''" for body
    by (simp add: operName_of_Inr request_simps)
  have l: "Oper (ms example_server) ''echo'' = Some echo_oper"
    by (simp add: example_Oper example_opers_def)
  have t: "ReqType echo_oper = Some string_type"
    by (simp add: echo_oper_def)
  have d: "json_Decode string_type (Body (request ''POST'' ''/echo'' ''{'')) (Zero string_type) =
      (Some (StdError ''json: cannot unmarshal into Go value of type string''), '''')"
    by (simp add: json_Decode_def json_space_def string_type_def unmarshal_string_def
        request_simps)
  from ServeHTTP_empty_body [OF p l t, of "''''" example_Marshal]
    ServeHTTP_empty_body [OF p l t, of "''{''" example_Marshal] d
  show ?thesis
    by (simp add: request_simps string_type_def io_EOF_def)
qed

text \<open>
  The claim as stated, that an empty body always has the handler invoked with the zero
  value, fails for a shape whose \<^verbatim>\<open>Validate\<close> rejects the zero value: \<^verbatim>\<open>POST /create\<close>
  with an empty body is answered with status 400, and the handler is not invoked.
\<close>

theorem ServeHTTP_empty_body_counterexample:
  "ReqType create_oper = Some name_type \<and>
   Oper (ms example_server) ''create'' = Some create_oper \<and>
   Body (request ''POST'' ''/create'' '''') = '''' \<and>
   calls (ServeHTTP example_Marshal example_server newResponse (request ''POST'' ''/create'' '''')) =
     [Call_Oper ''create'', Call_Validate ''''] \<and>
   Status (rw (ServeHTTP example_Marshal example_server newResponse
     (request ''POST'' ''/create'' ''''))) = 400 \<and>
   Written (rw (ServeHTTP example_Marshal example_server newResponse
     (request ''POST'' ''/create'' ''''))) = ''invalid request: missing name'' @ [CHR 0x0A]"
proof -
  have p: "operName_of (URL_Path (request ''POST'' ''/create'' '''')) = Inr ''create''"
    by (simp add: operName_of_Inr request_simps)
  have l: "Oper (ms example_server) ''create'' = Some create_oper"
    by (simp add: example_Oper example_opers_def)
  have d: "decode_request create_oper (request ''POST'' ''/create'' '''') =
      (Inl (errors_Errorc StatusBadRequest ''invalid request: missing name''),
       [Call_Validate ''''])"
    by (simp add: decode_request_def create_oper_def name_type_def json_Decode_def request_simps
        io_EOF_def fmt_plus_v_def errors_Errorf_def)
  have c: "calls (ServeHTTP example_Marshal example_server newResponse
      (request ''POST'' ''/create'' '''')) = [Call_Oper ''create'', Call_Validate '''']"
    using p l d by (simp add: calls_ServeHTTP)
  have "Status (rw (ServeHTTP example_Marshal example_server newResponse
        (request ''POST'' ''/create'' ''''))) = 400 \<and>
      Written (rw (ServeHTTP example_Marshal example_server newResponse
        (request ''POST'' ''/create'' ''''))) =
      Error_text (errors_Errorc StatusBadRequest ''invalid request: missing name'') @ [CHR 0x0A]"
    unfolding ServeHTTP_decode_error [OF p l d, of example_Marshal newResponse]
    by (simp add: Status_deferred_fresh newResponse_def errCode_of_Errorc_400)
  with c l show ?thesis
    by (simp add: errors_Errorc_def create_oper_def request_simps)
qed

section \<open>Config.Validate\<close>

text \<open>
  C10, as amended. \<^verbatim>\<open>Config.Validate\<close> returns nil if and only if Addr is non-empty and
  Port is strictly positive. It returns an error mentioning "missing addr" when Addr is
  empty; "missing port" when Addr is non-empty and Port is zero; "negative port" (followed
  by the port in decimal) when Addr is non-empty and Port is negative.
\<close>

theorem Validate_cases:
  "(Validate c = None \<longleftrightarrow> Addr c \<noteq> '''' \<and> 0 < Port c) \<and>
   (Addr c = '''' \<longrightarrow> mentions (Validate c) ''missing addr'') \<and>
   (Addr c \<noteq> '''' \<and> Port c = 0 \<longrightarrow> mentions (Validate c) ''missing port'') \<and>
   (Addr c \<noteq> '''' \<and> Port c < 0 \<longrightarrow>
      Validate c = Some (errors_Errorf (''negative port:'' @ fmt_d (Port c))) \<and>
      mentions (Validate c) ''negative port'')"
  by (auto simp: Validate_def mentions_def errors_Errorf_def)

theorem Validate_cases_witness:
  "Validate \<lparr>Addr = ''localhost'', Port = 8080\<rparr> = None \<and>
   mentions (Validate \<lparr>Addr = '''', Port = 8080\<rparr>) ''missing addr'' \<and>
   mentions (Validate \<lparr>Addr = ''localhost'', Port = 0\<rparr>) ''missing port'' \<and>
   Validate \<lparr>Addr = ''localhost'', Port = - 12\<rparr> = Some (errors_Errorf ''negative port:-12'')"
proof -
  have d: "fmt_d (- 12) = ''-12''"
    by code_simp
  show ?thesis
    using Validate_cases [of "\<lparr>Addr = ''localhost'', Port = 8080\<rparr>"]
      Validate_cases [of "\<lparr>Addr = '''', Port = 8080\<rparr>"]
      Validate_cases [of "\<lparr>Addr = ''localhost'', Port = 0\<rparr>"]
      Validate_cases [of "\<lparr>Addr = ''localhost'', Port = - 12\<rparr>"]
    by (simp add: d)
qed

text \<open>
  The claim as stated fails where Addr is empty and Port is zero: the first check returns
  "missing addr", and the error does not mention "missing port".
\<close>

theorem Validate_missing_port_counterexample:
  "Port \<lparr>Addr = '''', Port = 0\<rparr> = 0 \<and>
   Validate \<lparr>Addr = '''', Port = 0\<rparr> = Some (errors_Errorf ''missing addr'') \<and>
   \<not> mentions (Validate \<lparr>Addr = '''', Port = 0\<rparr>) ''missing port''"
  by (simp add: Validate_def mentions_def errors_Errorf_def sublist_code prefix_code)

end
